theory Spec2Isabelle
  imports Complex_Main
begin

section \<open>The interest calculator component (src/src/app.component.ts)\<close>

text \<open>
  The component is embedded as a state record with one field per signal, the
  \<^verbatim>\<open>interestCalcHistory\<close> slot of localStorage, the callbacks queued by
  \<^verbatim>\<open>setTimeout\<close> and the lines written by \<^verbatim>\<open>console.error\<close>. Every
  method is a function from state to state.

  A JavaScript \<^verbatim>\<open>number\<close> is a \<^typ>\<open>real\<close>, so rounding, overflow to infinity
  and NaN are outside the model; \<^verbatim>\<open>number | null\<close> is \<^typ>\<open>real option\<close>.
  The platform functions that are not part of the file (\<^verbatim>\<open>JSON.stringify\<close>,
  \<^verbatim>\<open>JSON.parse\<close>, the failures of localStorage) are parameters, collected in
  the record \<open>runtime\<close>.
\<close>

subsection \<open>Data\<close>

datatype TimeUnit = years | months

record CompoundDetail =
  interest :: real
  total :: real

record CalculationResult =
  principal :: real
  rate :: real
  time :: real
  timeUnit :: TimeUnit
  compoundFrequency :: real
  simpleInterest :: real
  compoundDetail :: CompoundDetail
  totalSimple :: real
  timestamp :: int

text \<open>
  The closure handed to \<^verbatim>\<open>setTimeout\<close> in \<^verbatim>\<open>calculate\<close> captures the
  constants \<^verbatim>\<open>p\<close>, \<^verbatim>\<open>r\<close>, \<^verbatim>\<open>t\<close> and \<^verbatim>\<open>n\<close>; everything else it
  reads from the component when it runs.
\<close>

datatype timer = Timer (captured_p: real) (captured_r: real) (captured_t: real) (captured_n: real)

record AppComponent =
  principal :: "real option"
  rate :: "real option"
  time :: "real option"
  timeUnit :: TimeUnit
  compoundFrequency :: real
  isLoading :: bool
  activeTooltip :: "string option"
  calculationResult :: "CalculationResult option"
  calculationHistory :: "CalculationResult list"
  storage :: "string option"
  timers :: "timer list"
  console :: "string list"

text \<open>
  The platform. \<open>JSON_parse\<close> is \<open>None\<close> where \<^verbatim>\<open>JSON.parse\<close> throws; a
  text that parses is taken at the declared type of the signal, an array of results.
  \<open>setItem_throws\<close> says for which values \<^verbatim>\<open>localStorage.setItem\<close> throws
  (quota, storage disabled), \<open>getItem_throws\<close> whether \<^verbatim>\<open>localStorage.getItem\<close>
  does.
\<close>

record runtime =
  JSON_stringify :: "CalculationResult list \<Rightarrow> string"
  JSON_parse :: "string \<Rightarrow> CalculationResult list option"
  setItem_throws :: "string \<Rightarrow> bool"
  getItem_throws :: bool

subsection \<open>Construction, the persistence effect and loading\<close>

text \<open>
  The state of the component when its constructor returns, over a given content of
  the storage slot: the field initialisers. The body of the constructor runs nothing
  by itself; it registers the effect below and, with \<^verbatim>\<open>afterNextRender\<close>, the
  call of \<^verbatim>\<open>loadHistoryFromStorage\<close>. The framework runs both during the first
  render, in the order given by \<open>startup\<close> further down.
\<close>

definition constructor :: "string option \<Rightarrow> AppComponent" where
  "constructor slot =
     \<lparr> AppComponent.principal = Some 10000,
       rate = Some 5,
       time = Some 10,
       timeUnit = years,
       compoundFrequency = 1,
       isLoading = False,
       activeTooltip = None,
       calculationResult = None,
       calculationHistory = [],
       storage = slot,
       timers = [],
       console = [] \<rparr>"

text \<open>
  The body of the effect registered in the constructor: it writes the serialised
  history to the slot, and reports a failing write on the console.
\<close>

definition history_effect :: "runtime \<Rightarrow> AppComponent \<Rightarrow> AppComponent" where
  "history_effect rt s =
     (let text = JSON_stringify rt (calculationHistory s)
      in if setItem_throws rt text
         then s\<lparr> console := console s @ [''Could not save history to localStorage''] \<rparr>
         else s\<lparr> storage := Some text \<rparr>)"

text \<open>
  Writing the signal \<^verbatim>\<open>calculationHistory\<close>: the effect reads that signal, so
  it runs again after each write.
\<close>

definition set_calculationHistory ::
    "runtime \<Rightarrow> CalculationResult list \<Rightarrow> AppComponent \<Rightarrow> AppComponent" where
  "set_calculationHistory rt h s = history_effect rt (s\<lparr> calculationHistory := h \<rparr>)"

text \<open>
  \<^verbatim>\<open>if (storedHistory)\<close> is false for \<^verbatim>\<open>null\<close> (no slot) and for the empty
  string; in both cases the signal is not written.
\<close>

definition loadHistoryFromStorage :: "runtime \<Rightarrow> AppComponent \<Rightarrow> AppComponent" where
  "loadHistoryFromStorage rt s =
     (if getItem_throws rt
      then set_calculationHistory rt []
             (s\<lparr> console := console s @ [''Could not load history from localStorage''] \<rparr>)
      else case storage s of
             None \<Rightarrow> s
           | Some storedHistory \<Rightarrow>
               if storedHistory = [] then s
               else (case JSON_parse rt storedHistory of
                       Some h \<Rightarrow> set_calculationHistory rt h s
                     | None \<Rightarrow>
                         set_calculationHistory rt []
                           (s\<lparr> console := console s @
                                 [''Could not load history from localStorage''] \<rparr>)))"

text \<open>
  The start-up of the component. The effect runs for the first time during the first
  change detection, on the initial empty history; the callback of
  \<^verbatim>\<open>afterNextRender\<close> runs after that render. So the slot is written once
  before it is read.
\<close>

definition startup :: "runtime \<Rightarrow> string option \<Rightarrow> AppComponent" where
  "startup rt slot = loadHistoryFromStorage rt (history_effect rt (constructor slot))"

subsection \<open>History\<close>

text \<open>\<^verbatim>\<open>[result, ...history.slice(0, 9)]\<close>\<close>

definition saveToHistory :: "runtime \<Rightarrow> CalculationResult \<Rightarrow> AppComponent \<Rightarrow> AppComponent" where
  "saveToHistory rt result s =
     set_calculationHistory rt (result # take 9 (calculationHistory s)) s"

definition clearHistory :: "runtime \<Rightarrow> AppComponent \<Rightarrow> AppComponent" where
  "clearHistory rt s = set_calculationHistory rt [] s"

subsection \<open>Calculation\<close>

text \<open>
  \<^verbatim>\<open>Math.pow\<close> on reals. The only call has the base
  \<^verbatim>\<open>1 + rateDecimal / n\<close> with \<^verbatim>\<open>r > 0\<close> and \<^verbatim>\<open>n > 0\<close>, which is
  above 1, where \<open>powr\<close> is the real power.
\<close>

definition Math_pow :: "real \<Rightarrow> real \<Rightarrow> real" where
  "Math_pow x y = x powr y"

text \<open>
  \<^verbatim>\<open>calculate\<close> up to the call of \<^verbatim>\<open>setTimeout\<close>: an input that is absent
  or not positive returns at once; otherwise the loading flag is set, the result is
  cleared and the callback is queued.
\<close>

definition calculate :: "AppComponent \<Rightarrow> AppComponent" where
  "calculate s =
     (case (AppComponent.principal s, AppComponent.rate s, AppComponent.time s) of
        (Some p, Some r, Some t) \<Rightarrow>
          if p \<le> 0 \<or> r \<le> 0 \<or> t \<le> 0 then s
          else s\<lparr> isLoading := True,
                  calculationResult := None,
                  timers := timers s @ [Timer p r t (AppComponent.compoundFrequency s)] \<rparr>
      | _ \<Rightarrow> s)"

text \<open>
  The callback of \<^verbatim>\<open>setTimeout\<close>, run on the state of the component at the
  time it fires, with \<open>now\<close> the value of \<^verbatim>\<open>Date.now()\<close>.
\<close>

definition calculate_callback :: "runtime \<Rightarrow> int \<Rightarrow> timer \<Rightarrow> AppComponent \<Rightarrow> AppComponent" where
  "calculate_callback rt now tm s =
     (let p = captured_p tm; r = captured_r tm; t = captured_t tm; n = captured_n tm;
          timeInYears = (if AppComponent.timeUnit s = years then t else t / 12);
          rateDecimal = r / 100;
          simpleInterest = p * rateDecimal * timeInYears;
          totalSimple = p + simpleInterest;
          totalCompound =
            (if n > 0 then p * Math_pow (1 + rateDecimal / n) (n * timeInYears)
             else p + simpleInterest);
          compoundInterest = (if n > 0 then totalCompound - p else 0);
          result =
            \<lparr> CalculationResult.principal = p,
              rate = r,
              time = t,
              timeUnit = AppComponent.timeUnit s,
              compoundFrequency = n,
              simpleInterest = simpleInterest,
              compoundDetail = \<lparr> interest = compoundInterest, total = totalCompound \<rparr>,
              totalSimple = totalSimple,
              timestamp = now \<rparr>
      in saveToHistory rt result (s\<lparr> calculationResult := Some result, isLoading := False \<rparr>))"

text \<open>The event loop runs the oldest queued callback; all have the same delay.\<close>

definition run_timer :: "runtime \<Rightarrow> int \<Rightarrow> AppComponent \<Rightarrow> AppComponent" where
  "run_timer rt now s =
     (case timers s of
        [] \<Rightarrow> s
      | tm # rest \<Rightarrow> calculate_callback rt now tm (s\<lparr> timers := rest \<rparr>))"

subsection \<open>Sequences of history operations\<close>

datatype history_op = Record CalculationResult | Clear | Load

fun apply_op :: "runtime \<Rightarrow> AppComponent \<Rightarrow> history_op \<Rightarrow> AppComponent" where
  "apply_op rt s (Record result) = saveToHistory rt result s"
| "apply_op rt s Clear = clearHistory rt s"
| "apply_op rt s Load = loadHistoryFromStorage rt s"

definition run_ops :: "runtime \<Rightarrow> history_op list \<Rightarrow> AppComponent \<Rightarrow> AppComponent" where
  "run_ops rt ops s = foldl (apply_op rt) s ops"

subsection \<open>Predicates on the platform and the slot\<close>

text \<open>The slot, where it parses, holds at most ten entries.\<close>

definition slot_bounded :: "runtime \<Rightarrow> AppComponent \<Rightarrow> bool" where
  "slot_bounded rt s \<longleftrightarrow>
     (case storage s of
        None \<Rightarrow> True
      | Some stored \<Rightarrow>
          (case JSON_parse rt stored of None \<Rightarrow> True | Some h \<Rightarrow> length h \<le> 10))"

text \<open>Parsing the serialisation of at most ten entries never yields more than ten.\<close>

definition codec_bounded :: "runtime \<Rightarrow> bool" where
  "codec_bounded rt \<longleftrightarrow>
     (\<forall>h. length h \<le> 10 \<longrightarrow>
        (case JSON_parse rt (JSON_stringify rt h) of
           None \<Rightarrow> True
         | Some h' \<Rightarrow> length h' \<le> 10))"

subsection \<open>Concrete values\<close>

text \<open>
  A platform whose codec knows two histories: the empty one, written \<open>[]\<close>, and a
  given history \<open>h\<close>, written \<open>[...]\<close>. Every other text fails to parse; storage
  never throws.
\<close>

definition table_runtime :: "CalculationResult list \<Rightarrow> runtime" where
  "table_runtime h =
     \<lparr> JSON_stringify = (\<lambda>h'. if h' = [] then ''[]'' else ''[...]''),
       JSON_parse =
         (\<lambda>stored. if stored = ''[]'' then Some []
                    else if stored = ''[...]'' then Some h else None),
       setItem_throws = (\<lambda>_. False),
       getItem_throws = False \<rparr>"

text \<open>The result of the default inputs without compounding, created at time \<open>k\<close>.\<close>

definition sample_result :: "int \<Rightarrow> CalculationResult" where
  "sample_result k =
     \<lparr> CalculationResult.principal = 10000,
       rate = 5,
       time = 10,
       timeUnit = years,
       compoundFrequency = 0,
       simpleInterest = 5000,
       compoundDetail = \<lparr> interest = 0, total = 15000 \<rparr>,
       totalSimple = 15000,
       timestamp = k \<rparr>"

text \<open>
  A platform whose codec is a table of texts and the histories they stand for:
  a history is written as the text of its entry, a text is parsed by looking it up,
  and a text outside the table fails to parse. Storage never throws.
\<close>

definition lookup_runtime :: "(string \<times> CalculationResult list) list \<Rightarrow> runtime" where
  "lookup_runtime table =
     \<lparr> JSON_stringify =
         (\<lambda>h. case find (\<lambda>entry. snd entry = h) table of
                Some entry \<Rightarrow> fst entry
              | None \<Rightarrow> ''null''),
       JSON_parse = map_of table,
       setItem_throws = (\<lambda>_. False),
       getItem_throws = False \<rparr>"

definition sample_table :: "(string \<times> CalculationResult list) list" where
  "sample_table =
     [(''[]'', []),
      (''[R1]'', [sample_result 1]),
      (''[R2,R1]'', [sample_result 2, sample_result 1]),
      (''[R0,R0,R0,R0,R0,R0,R0,R0,R0,R0,R0]'', replicate 11 (sample_result 0))]"

text \<open>A first session: start-up without a slot, then two calculations recorded.\<close>

definition first_session :: AppComponent where
  "first_session =
     run_ops (lookup_runtime sample_table) [Record (sample_result 1), Record (sample_result 2)]
       (startup (lookup_runtime sample_table) None)"

text \<open>The second example scenario: 1000 at 12 percent for 6 months, simple interest only.\<close>

definition months_example :: AppComponent where
  "months_example =
     \<lparr> AppComponent.principal = Some 1000,
       rate = Some 12,
       time = Some 6,
       timeUnit = months,
       compoundFrequency = 0,
       isLoading = False,
       activeTooltip = None,
       calculationResult = None,
       calculationHistory = [],
       storage = None,
       timers = [],
       console = [] \<rparr>"

section \<open>Auxiliary facts\<close>

lemma history_effect_fields [simp]:
  "calculationHistory (history_effect rt s) = calculationHistory s"
  "calculationResult (history_effect rt s) = calculationResult s"
  "isLoading (history_effect rt s) = isLoading s"
  "timers (history_effect rt s) = timers s"
  by (simp_all add: history_effect_def Let_def)

lemma set_calculationHistory_history [simp]:
  "calculationHistory (set_calculationHistory rt h s) = h"
  by (simp add: set_calculationHistory_def)

lemma saveToHistory_history:
  "calculationHistory (saveToHistory rt result s) = result # take 9 (calculationHistory s)"
  by (simp add: saveToHistory_def)

lemma clearHistory_history: "calculationHistory (clearHistory rt s) = []"
  by (simp add: clearHistory_def)

lemma callback_result:
  "calculationResult (calculate_callback rt now tm s) =
     Some \<lparr> CalculationResult.principal = captured_p tm,
       rate = captured_r tm,
       time = captured_t tm,
       timeUnit = AppComponent.timeUnit s,
       compoundFrequency = captured_n tm,
       simpleInterest = captured_p tm * (captured_r tm / 100) *
          (if AppComponent.timeUnit s = years then captured_t tm else captured_t tm / 12),
       compoundDetail =
         \<lparr> interest =
             (if captured_n tm > 0
              then captured_p tm *
                   Math_pow (1 + captured_r tm / 100 / captured_n tm)
                     (captured_n tm *
                      (if AppComponent.timeUnit s = years then captured_t tm else captured_t tm / 12)) -
                   captured_p tm
              else 0),
           total =
             (if captured_n tm > 0
              then captured_p tm *
                   Math_pow (1 + captured_r tm / 100 / captured_n tm)
                     (captured_n tm *
                      (if AppComponent.timeUnit s = years then captured_t tm else captured_t tm / 12))
              else captured_p tm + captured_p tm * (captured_r tm / 100) *
                   (if AppComponent.timeUnit s = years then captured_t tm else captured_t tm / 12)) \<rparr>,
       totalSimple = captured_p tm + captured_p tm * (captured_r tm / 100) *
          (if AppComponent.timeUnit s = years then captured_t tm else captured_t tm / 12),
       timestamp = now \<rparr>"
  by (simp add: calculate_callback_def Let_def saveToHistory_def set_calculationHistory_def)

lemma calculate_valid:
  assumes "AppComponent.principal s = Some p" "AppComponent.rate s = Some r" "AppComponent.time s = Some t"
    and "0 < p" "0 < r" "0 < t"
  shows "calculate s = s\<lparr> isLoading := True, calculationResult := None,
            timers := timers s @ [Timer p r t (AppComponent.compoundFrequency s)] \<rparr>"
  using assms by (simp add: calculate_def)

lemma calculate_invalid:
  assumes "AppComponent.principal s = None \<or> AppComponent.rate s = None \<or> AppComponent.time s = None \<or>
     (\<exists>p. AppComponent.principal s = Some p \<and> p \<le> 0) \<or>
     (\<exists>r. AppComponent.rate s = Some r \<and> r \<le> 0) \<or>
     (\<exists>t. AppComponent.time s = Some t \<and> t \<le> 0)"
  shows "calculate s = s"
  using assms by (auto simp: calculate_def split: option.splits)

lemma history_effect_slot_bounded:
  assumes "codec_bounded rt" "length (calculationHistory s) \<le> 10" "slot_bounded rt s"
  shows "slot_bounded rt (history_effect rt s)"
proof (cases "setItem_throws rt (JSON_stringify rt (calculationHistory s))")
  case True
  with assms(3) show ?thesis
    by (simp add: history_effect_def Let_def slot_bounded_def)
next
  case False
  from assms(1,2) have "case JSON_parse rt (JSON_stringify rt (calculationHistory s)) of
      None \<Rightarrow> True | Some h' \<Rightarrow> length h' \<le> 10"
    unfolding codec_bounded_def by blast
  with False show ?thesis
    by (simp add: history_effect_def Let_def slot_bounded_def)
qed

lemma set_calculationHistory_slot_bounded:
  assumes "codec_bounded rt" "length h \<le> 10" "slot_bounded rt s"
  shows "slot_bounded rt (set_calculationHistory rt h s)"
  unfolding set_calculationHistory_def
  using assms by (intro history_effect_slot_bounded) (simp_all add: slot_bounded_def)

lemma slot_bounded_console [simp]:
  "slot_bounded rt (s\<lparr> console := c \<rparr>) = slot_bounded rt s"
  by (simp add: slot_bounded_def)

lemma loadHistoryFromStorage_cases:
  "loadHistoryFromStorage rt s = s \<or>
   (\<exists>c. loadHistoryFromStorage rt s = set_calculationHistory rt [] (s\<lparr> console := c \<rparr>)) \<or>
   (\<exists>text h. storage s = Some text \<and> JSON_parse rt text = Some h \<and>
      loadHistoryFromStorage rt s = set_calculationHistory rt h s)"
  by (auto simp: loadHistoryFromStorage_def split: option.splits)

lemma apply_op_bounded:
  assumes "codec_bounded rt" "length (calculationHistory s) \<le> 10" "slot_bounded rt s"
  shows "length (calculationHistory (apply_op rt s op)) \<le> 10 \<and> slot_bounded rt (apply_op rt s op)"
proof (cases op)
  case (Record result)
  have "length (result # take 9 (calculationHistory s)) \<le> 10" by simp
  with assms Record show ?thesis
    by (simp add: saveToHistory_def set_calculationHistory_slot_bounded del: length_Cons)
next
  case Clear
  with assms show ?thesis
    by (simp add: clearHistory_def set_calculationHistory_slot_bounded)
next
  case Load
  from loadHistoryFromStorage_cases [of rt s] consider
      (same) "loadHistoryFromStorage rt s = s"
    | (reset) c where "loadHistoryFromStorage rt s = set_calculationHistory rt [] (s\<lparr> console := c \<rparr>)"
    | (parsed) stored h where "storage s = Some stored" "JSON_parse rt stored = Some h"
        "loadHistoryFromStorage rt s = set_calculationHistory rt h s"
    by blast
  then show ?thesis
  proof cases
    case same
    with assms Load show ?thesis by simp
  next
    case reset
    with assms Load show ?thesis
      by (simp add: set_calculationHistory_slot_bounded)
  next
    case parsed
    from parsed(1,2) assms(3) have "length h \<le> 10"
      by (simp add: slot_bounded_def)
    with parsed(3) assms Load show ?thesis
      by (simp add: set_calculationHistory_slot_bounded)
  qed
qed

lemma run_ops_bounded:
  assumes "codec_bounded rt"
  shows "length (calculationHistory s) \<le> 10 \<Longrightarrow> slot_bounded rt s \<Longrightarrow>
     length (calculationHistory (run_ops rt ops s)) \<le> 10 \<and> slot_bounded rt (run_ops rt ops s)"
proof (induction ops arbitrary: s)
  case Nil
  then show ?case by (simp add: run_ops_def)
next
  case (Cons op ops)
  from apply_op_bounded [OF assms Cons.prems]
  have "length (calculationHistory (apply_op rt s op)) \<le> 10" "slot_bounded rt (apply_op rt s op)"
    by simp_all
  from Cons.IH [OF this] show ?case by (simp add: run_ops_def)
qed

lemma apply_op_no_load_bounded:
  assumes "op \<noteq> Load" "length (calculationHistory s) \<le> 10"
  shows "length (calculationHistory (apply_op rt s op)) \<le> 10"
  using assms by (cases op) (simp_all add: saveToHistory_history clearHistory_history)

lemma run_ops_no_load_bounded:
  "Load \<notin> set ops \<Longrightarrow> length (calculationHistory s) \<le> 10 \<Longrightarrow>
     length (calculationHistory (run_ops rt ops s)) \<le> 10"
proof (induction ops arbitrary: s)
  case Nil
  then show ?case by (simp add: run_ops_def)
next
  case (Cons op ops)
  from Cons.prems have "op \<noteq> Load" "Load \<notin> set ops" by auto
  from Cons.IH [OF this(2) apply_op_no_load_bounded [OF this(1) Cons.prems(2)]]
  show ?case by (simp add: run_ops_def)
qed

lemma record_twelve:
  "calculationHistory s = [] \<Longrightarrow>
   calculationHistory
     (run_ops rt [Record r1, Record r2, Record r3, Record r4, Record r5, Record r6,
                  Record r7, Record r8, Record r9, Record r10, Record r11, Record r12] s) =
   [r12, r11, r10, r9, r8, r7, r6, r5, r4, r3]"
  by (simp add: run_ops_def saveToHistory_history)

lemma set_calculationHistory_storage:
  "\<not> setItem_throws rt (JSON_stringify rt h) \<Longrightarrow>
     storage (set_calculationHistory rt h s) = Some (JSON_stringify rt h)"
  by (simp add: set_calculationHistory_def history_effect_def Let_def)

lemma slot_written:
  assumes "op \<noteq> Load"
    and "\<not> setItem_throws rt (JSON_stringify rt (calculationHistory (apply_op rt s op)))"
  shows "storage (apply_op rt s op) =
     Some (JSON_stringify rt (calculationHistory (apply_op rt s op)))"
proof (cases op)
  case (Record result)
  with assms(2) show ?thesis
    by (simp add: saveToHistory_def set_calculationHistory_storage)
next
  case Clear
  with assms(2) show ?thesis
    by (simp add: clearHistory_def set_calculationHistory_storage)
next
  case Load
  with assms(1) show ?thesis by simp
qed

lemma sample_result_eq [simp]: "sample_result j = sample_result k \<longleftrightarrow> j = k"
  by (simp add: sample_result_def)

lemma first_effect_slot_bounded:
  assumes "codec_bounded rt"
    and "\<not> setItem_throws rt (JSON_stringify rt []) \<or> slot_bounded rt (constructor slot)"
  shows "slot_bounded rt (history_effect rt (constructor slot))"
proof (cases "setItem_throws rt (JSON_stringify rt [])")
  case True
  with assms(2) have "slot_bounded rt (constructor slot)" by simp
  with True show ?thesis
    by (simp add: history_effect_def Let_def slot_bounded_def constructor_def)
next
  case False
  from assms(1) have "case JSON_parse rt (JSON_stringify rt []) of
      None \<Rightarrow> True | Some h' \<Rightarrow> length h' \<le> 10"
    unfolding codec_bounded_def by (metis list.size(3) zero_le)
  with False show ?thesis
    by (simp add: history_effect_def Let_def slot_bounded_def constructor_def)
qed

lemma run_ops_startup:
  "run_ops rt ops (startup rt slot) = run_ops rt (Load # ops) (history_effect rt (constructor slot))"
  by (simp add: run_ops_def startup_def)

lemma startup_bounded:
  assumes "codec_bounded rt"
    and "\<not> setItem_throws rt (JSON_stringify rt []) \<or> slot_bounded rt (constructor slot)"
  shows "length (calculationHistory (run_ops rt ops (startup rt slot))) \<le> 10"
proof -
  have "length (calculationHistory (history_effect rt (constructor slot))) \<le> 10"
    by (simp add: constructor_def)
  from run_ops_bounded [OF assms(1) this first_effect_slot_bounded [OF assms]]
  show ?thesis by (simp add: run_ops_startup)
qed

lemma startup_after_first_write:
  assumes "\<not> setItem_throws rt (JSON_stringify rt [])"
    and "JSON_parse rt (JSON_stringify rt []) = Some []"
  shows "calculationHistory (startup rt slot) = []"
    and "storage (startup rt slot) = Some (JSON_stringify rt [])"
  using assms
  by (simp_all add: startup_def loadHistoryFromStorage_def history_effect_def Let_def
        set_calculationHistory_def constructor_def)

lemma codec_bounded_sample: "codec_bounded (lookup_runtime sample_table)"
  unfolding codec_bounded_def
  by (auto simp: lookup_runtime_def sample_table_def split: option.splits if_splits)

lemma stringify_sample [simp]:
  "JSON_stringify (lookup_runtime sample_table) [] = ''[]''"
  "JSON_stringify (lookup_runtime sample_table) [sample_result 1] = ''[R1]''"
  "JSON_stringify (lookup_runtime sample_table) [sample_result 2, sample_result 1] = ''[R2,R1]''"
  by (simp_all add: lookup_runtime_def sample_table_def)

lemma parse_sample [simp]:
  "JSON_parse (lookup_runtime sample_table) ''[]'' = Some []"
  "JSON_parse (lookup_runtime sample_table) ''[R1]'' = Some [sample_result 1]"
  "JSON_parse (lookup_runtime sample_table) ''[R2,R1]'' = Some [sample_result 2, sample_result 1]"
  "JSON_parse (lookup_runtime sample_table) ''[R0,R0,R0,R0,R0,R0,R0,R0,R0,R0,R0]'' =
     Some (replicate 11 (sample_result 0))"
  by (simp_all add: lookup_runtime_def sample_table_def)

lemma throws_sample [simp]:
  "\<not> setItem_throws (lookup_runtime sample_table) stored"
  "\<not> getItem_throws (lookup_runtime sample_table)"
  by (simp_all add: lookup_runtime_def)

lemma first_session_state:
  "calculationHistory first_session = [sample_result 2, sample_result 1]"
  "storage first_session = Some ''[R2,R1]''"
  by (simp_all add: first_session_def run_ops_def startup_def loadHistoryFromStorage_def
        saveToHistory_def set_calculationHistory_def history_effect_def Let_def constructor_def)

section \<open>The claims\<close>

subsection \<open>Validation\<close>

text \<open>
  C1. When principal, rate and time are present and positive and the compounding
  frequency is not negative, \<open>calculate\<close> does not reject: it queues the callback
  with the four inputs, and the callback, on whatever state it runs, leaves a result
  (in particular when it is the only one queued and the timer fires). When one of
  principal, rate and time is absent or not positive, \<open>calculate\<close> returns the state
  as it was: no result is produced and no callback is queued. Both functions are
  total, so no error is raised.
\<close>

theorem calculate_accepts_valid_rejects_invalid:
  "(AppComponent.principal s = Some p \<and> AppComponent.rate s = Some r \<and>
    AppComponent.time s = Some t \<and> 0 < p \<and> 0 < r \<and> 0 < t \<and>
    0 \<le> AppComponent.compoundFrequency s \<longrightarrow>
      timers (calculate s) = timers s @ [Timer p r t (AppComponent.compoundFrequency s)] \<and>
      (\<exists>res. calculationResult
                (calculate_callback rt now (Timer p r t (AppComponent.compoundFrequency s)) s') =
              Some res) \<and>
      (timers s = [] \<longrightarrow> (\<exists>res. calculationResult (run_timer rt now (calculate s)) = Some res))) \<and>
   (AppComponent.principal s = None \<or> AppComponent.rate s = None \<or>
    AppComponent.time s = None \<or>
    (\<exists>p. AppComponent.principal s = Some p \<and> p \<le> 0) \<or>
    (\<exists>r. AppComponent.rate s = Some r \<and> r \<le> 0) \<or>
    (\<exists>t. AppComponent.time s = Some t \<and> t \<le> 0) \<longrightarrow>
      calculate s = s \<and> calculationResult (calculate s) = calculationResult s \<and>
      timers (calculate s) = timers s)"
proof (intro conjI impI)
  assume v: "AppComponent.principal s = Some p \<and> AppComponent.rate s = Some r \<and>
    AppComponent.time s = Some t \<and> 0 < p \<and> 0 < r \<and> 0 < t \<and>
    0 \<le> AppComponent.compoundFrequency s"
  then have c: "calculate s = s\<lparr> isLoading := True, calculationResult := None,
            timers := timers s @ [Timer p r t (AppComponent.compoundFrequency s)] \<rparr>"
    by (simp add: calculate_valid)
  show "timers (calculate s) = timers s @ [Timer p r t (AppComponent.compoundFrequency s)]"
    by (simp add: c)
  show "\<exists>res. calculationResult
                (calculate_callback rt now (Timer p r t (AppComponent.compoundFrequency s)) s') =
              Some res"
    by (simp add: callback_result)
  show "\<exists>res. calculationResult (run_timer rt now (calculate s)) = Some res" if "timers s = []"
    using that by (simp add: c run_timer_def callback_result)
next
  assume i: "AppComponent.principal s = None \<or> AppComponent.rate s = None \<or>
    AppComponent.time s = None \<or>
    (\<exists>p. AppComponent.principal s = Some p \<and> p \<le> 0) \<or>
    (\<exists>r. AppComponent.rate s = Some r \<and> r \<le> 0) \<or>
    (\<exists>t. AppComponent.time s = Some t \<and> t \<le> 0)"
  then have c: "calculate s = s" by (rule calculate_invalid)
  show "calculate s = s" by (rule c)
  show "calculationResult (calculate s) = calculationResult s" by (simp add: c)
  show "timers (calculate s) = timers s" by (simp add: c)
qed

text \<open>
  The default inputs are accepted; a principal of 0 and an absent rate are rejected.
\<close>

theorem calculate_accepts_valid_rejects_invalid_witness:
  "timers (calculate (constructor None)) = [Timer 10000 5 10 1] \<and>
   (\<exists>res. calculationResult (run_timer (table_runtime []) 0 (calculate (constructor None))) = Some res) \<and>
   calculate ((constructor None)\<lparr> AppComponent.principal := Some 0 \<rparr>) =
     (constructor None)\<lparr> AppComponent.principal := Some 0 \<rparr> \<and>
   calculate ((constructor None)\<lparr> AppComponent.rate := None \<rparr>) =
     (constructor None)\<lparr> AppComponent.rate := None \<rparr>"
  using calculate_accepts_valid_rejects_invalid
          [of "constructor None" 10000 5 10 "table_runtime []" 0 "constructor None"]
        calculate_accepts_valid_rejects_invalid
          [of "(constructor None)\<lparr> AppComponent.principal := Some 0 \<rparr>" 1 1 1 "table_runtime []" 0
              "constructor None"]
        calculate_accepts_valid_rejects_invalid
          [of "(constructor None)\<lparr> AppComponent.rate := None \<rparr>" 1 1 1 "table_runtime []" 0
              "constructor None"]
  by (simp add: constructor_def)

text \<open>
  C10. When \<open>calculate\<close> rejects its input, the state is the one before the call:
  the result, the history, the persisted slot and the loading flag keep their values,
  and no callback is queued that could change them later.
\<close>

theorem rejection_leaves_state:
  assumes "AppComponent.principal s = None \<or> AppComponent.rate s = None \<or>
    AppComponent.time s = None \<or>
    (\<exists>p. AppComponent.principal s = Some p \<and> p \<le> 0) \<or>
    (\<exists>r. AppComponent.rate s = Some r \<and> r \<le> 0) \<or>
    (\<exists>t. AppComponent.time s = Some t \<and> t \<le> 0)"
  shows "calculate s = s \<and>
     calculationResult (calculate s) = calculationResult s \<and>
     calculationHistory (calculate s) = calculationHistory s \<and>
     storage (calculate s) = storage s \<and>
     isLoading (calculate s) = isLoading s \<and>
     timers (calculate s) = timers s"
  using calculate_invalid [OF assms] by simp

theorem rejection_leaves_state_witness:
  "calculate ((constructor (Some ''[]''))\<lparr> AppComponent.time := Some (- 1) \<rparr>) =
     (constructor (Some ''[]''))\<lparr> AppComponent.time := Some (- 1) \<rparr>"
  using rejection_leaves_state [of "(constructor (Some ''[]''))\<lparr> AppComponent.time := Some (- 1) \<rparr>"]
  by (simp add: constructor_def)

subsection \<open>The formulas\<close>

text \<open>
  C2. For valid inputs with a compounding frequency \<open>n > 0\<close>, the result that the
  queued callback leaves echoes the inputs and has
  \<open>compoundDetail.total = principal * (1 + (rate / 100) / n) ^ (n * timeInYears)\<close> and
  \<open>compoundDetail.interest = compoundDetail.total - principal\<close>, with the time in
  years taken from the time and the time unit of the result.
\<close>

theorem compound_total_formula:
  assumes "AppComponent.principal s = Some p" "AppComponent.rate s = Some r"
    and "AppComponent.time s = Some t" "AppComponent.compoundFrequency s = n"
    and "0 < p" "0 < r" "0 < t" "0 < n"
  shows "timers (calculate s) = timers s @ [Timer p r t n] \<and>
     (\<exists>res. calculationResult (calculate_callback rt now (Timer p r t n) s') = Some res \<and>
        CalculationResult.principal res = p \<and> CalculationResult.rate res = r \<and>
        CalculationResult.time res = t \<and> CalculationResult.compoundFrequency res = n \<and>
        CalculationResult.timeUnit res = AppComponent.timeUnit s' \<and>
        total (compoundDetail res) =
          p * (1 + (r / 100) / n) powr
                (n * (case CalculationResult.timeUnit res of years \<Rightarrow> t | months \<Rightarrow> t / 12)) \<and>
        interest (compoundDetail res) = total (compoundDetail res) - p)"
  using assms
  by (cases "AppComponent.timeUnit s'") (simp_all add: calculate_valid callback_result Math_pow_def)

text \<open>
  The first example scenario: 10000 at 5 percent for 10 years, compounded annually,
  grows to \<open>10000 * 1.05 ^ 10\<close>, between 16288 and 16289.
\<close>

theorem compound_total_formula_witness:
  "timers (calculate (constructor None)) = [Timer 10000 5 10 1] \<and>
   (\<exists>res. calculationResult
       (calculate_callback (table_runtime []) 0 (Timer 10000 5 10 1) (constructor None)) = Some res \<and>
      total (compoundDetail res) = 10000 * (21 / 20) ^ 10 \<and>
      16288 < total (compoundDetail res) \<and> total (compoundDetail res) < 16289 \<and>
      interest (compoundDetail res) = total (compoundDetail res) - 10000)"
  using compound_total_formula
          [of "constructor None" 10000 5 10 1 "table_runtime []" 0 "constructor None"]
  by (auto simp: constructor_def callback_result power_divide)

text \<open>
  C3. For valid inputs, the result has
  \<open>simpleInterest = principal * (rate / 100) * timeInYears\<close> and
  \<open>totalSimple = principal + simpleInterest\<close>, where the time in years is the time
  for the unit years and the time divided by 12 for the unit months.
\<close>

theorem simple_interest_formula:
  assumes "AppComponent.principal s = Some p" "AppComponent.rate s = Some r"
    and "AppComponent.time s = Some t" "AppComponent.compoundFrequency s = n"
    and "0 < p" "0 < r" "0 < t"
  shows "timers (calculate s) = timers s @ [Timer p r t n] \<and>
     (\<exists>res. calculationResult (calculate_callback rt now (Timer p r t n) s') = Some res \<and>
        CalculationResult.principal res = p \<and> CalculationResult.rate res = r \<and>
        CalculationResult.time res = t \<and>
        CalculationResult.timeUnit res = AppComponent.timeUnit s' \<and>
        simpleInterest res =
          p * (r / 100) * (case CalculationResult.timeUnit res of years \<Rightarrow> t | months \<Rightarrow> t / 12) \<and>
        totalSimple res = p + simpleInterest res)"
  using assms by (cases "AppComponent.timeUnit s'") (simp_all add: calculate_valid callback_result)

text \<open>
  The default inputs give 5000 and 15000 in years; read as months, the ten months
  give \<open>10000 * 0.05 * 10 / 12\<close>.
\<close>

theorem simple_interest_formula_witness:
  "timers (calculate (constructor None)) = [Timer 10000 5 10 1] \<and>
   (\<exists>res. calculationResult
       (calculate_callback (table_runtime []) 0 (Timer 10000 5 10 1) (constructor None)) = Some res \<and>
      CalculationResult.timeUnit res = years \<and> simpleInterest res = 5000 \<and> totalSimple res = 15000) \<and>
   (\<exists>res. calculationResult
       (calculate_callback (table_runtime []) 0 (Timer 10000 5 10 1)
          ((constructor None)\<lparr> AppComponent.timeUnit := months \<rparr>)) = Some res \<and>
      CalculationResult.timeUnit res = months \<and> simpleInterest res = 1250 / 3)"
  using simple_interest_formula
          [of "constructor None" 10000 5 10 1 "table_runtime []" 0 "constructor None"]
        simple_interest_formula
          [of "constructor None" 10000 5 10 1 "table_runtime []" 0
              "(constructor None)\<lparr> AppComponent.timeUnit := months \<rparr>"]
  by (auto simp: constructor_def callback_result power_divide)

text \<open>
  C4. For valid inputs with the compounding frequency 0, the result has
  \<open>compoundDetail.interest = 0\<close> and \<open>compoundDetail.total = totalSimple\<close>.
\<close>

theorem simple_only_branch:
  assumes "AppComponent.principal s = Some p" "AppComponent.rate s = Some r"
    and "AppComponent.time s = Some t" "AppComponent.compoundFrequency s = 0"
    and "0 < p" "0 < r" "0 < t"
  shows "timers (calculate s) = timers s @ [Timer p r t 0] \<and>
     (\<exists>res. calculationResult (calculate_callback rt now (Timer p r t 0) s') = Some res \<and>
        CalculationResult.compoundFrequency res = 0 \<and>
        interest (compoundDetail res) = 0 \<and>
        total (compoundDetail res) = totalSimple res)"
  using assms by (simp add: calculate_valid callback_result)

text \<open>The second example scenario gives the interest 0 and both totals 1060.\<close>

theorem simple_only_branch_witness:
  "timers (calculate months_example) = [Timer 1000 12 6 0] \<and>
   (\<exists>res. calculationResult
       (calculate_callback (table_runtime []) 0 (Timer 1000 12 6 0) months_example) = Some res \<and>
      interest (compoundDetail res) = 0 \<and> total (compoundDetail res) = 1060 \<and>
      totalSimple res = 1060)"
  using simple_only_branch [of months_example 1000 12 6 "table_runtime []" 0 months_example]
  by (auto simp: months_example_def callback_result)

text \<open>
  C9. For valid inputs with a negative compounding frequency, \<open>calculate\<close> does not
  reject, and the result is that of the frequency 0 except for the echoed frequency:
  \<open>compoundDetail.interest = 0\<close> and \<open>compoundDetail.total = totalSimple\<close>; the
  power is not computed.
\<close>

theorem negative_frequency_as_simple:
  assumes "AppComponent.principal s = Some p" "AppComponent.rate s = Some r"
    and "AppComponent.time s = Some t" "AppComponent.compoundFrequency s = n"
    and "0 < p" "0 < r" "0 < t" "n < 0"
  shows "timers (calculate s) = timers s @ [Timer p r t n] \<and>
     (\<exists>res. calculationResult (calculate_callback rt now (Timer p r t n) s') = Some res \<and>
        interest (compoundDetail res) = 0 \<and>
        total (compoundDetail res) = totalSimple res \<and>
        calculationResult (calculate_callback rt now (Timer p r t 0) s') =
          Some (res\<lparr> CalculationResult.compoundFrequency := 0 \<rparr>))"
  using assms by (simp add: calculate_valid callback_result)

theorem negative_frequency_as_simple_witness:
  "timers (calculate ((constructor None)\<lparr> AppComponent.compoundFrequency := - 2 \<rparr>)) =
     [Timer 10000 5 10 (- 2)] \<and>
   (\<exists>res. calculationResult
       (calculate_callback (table_runtime []) 0 (Timer 10000 5 10 (- 2)) (constructor None)) =
         Some res \<and>
      interest (compoundDetail res) = 0 \<and> total (compoundDetail res) = 15000 \<and>
      totalSimple res = 15000)"
  using negative_frequency_as_simple
          [of "(constructor None)\<lparr> AppComponent.compoundFrequency := - 2 \<rparr>" 10000 5 10 "- 2"
              "table_runtime []" 0 "constructor None"]
  by (auto simp: constructor_def callback_result)

subsection \<open>The history\<close>

text \<open>
  C8. Whatever the history was, \<open>clearHistory\<close> leaves the empty history.
\<close>

theorem clearHistory_empties:
  "calculationHistory (clearHistory rt s) = []"
  by (simp add: clearHistory_def)

text \<open>
  C5. The history never has more than ten entries:
  a history of at most ten stays so under every sequence of record and clear; with
  load in the sequence it stays so from any state whose slot, if it parses, holds at
  most ten entries; and it stays so under every sequence of record, clear and load
  after the start-up of the component, whatever the slot held, once the first write
  of the effect has succeeded (or else when the slot found holds at most ten). The
  codec is assumed never to parse what it wrote for at most ten entries into more.
  Recording R1 to R12 in order into the empty history leaves R12, R11, ..., R3:
  newest first, the oldest two dropped.
\<close>

theorem history_capacity:
  "(Load \<notin> set ops \<and> length (calculationHistory s) \<le> 10 \<longrightarrow>
      length (calculationHistory (run_ops rt ops s)) \<le> 10) \<and>
   (codec_bounded rt \<and> slot_bounded rt s \<and> length (calculationHistory s) \<le> 10 \<longrightarrow>
      length (calculationHistory (run_ops rt ops' s)) \<le> 10) \<and>
   (codec_bounded rt \<and>
    (\<not> setItem_throws rt (JSON_stringify rt []) \<or> slot_bounded rt (constructor slot)) \<longrightarrow>
      length (calculationHistory (run_ops rt ops'' (startup rt slot))) \<le> 10) \<and>
   (calculationHistory s = [] \<longrightarrow>
      calculationHistory
        (run_ops rt [Record r1, Record r2, Record r3, Record r4, Record r5, Record r6,
                     Record r7, Record r8, Record r9, Record r10, Record r11, Record r12] s) =
      [r12, r11, r10, r9, r8, r7, r6, r5, r4, r3])"
  using run_ops_no_load_bounded [of ops s rt] run_ops_bounded [of rt s ops']
    startup_bounded [of rt slot ops''] record_twelve [of s]
  by blast

theorem history_capacity_witness:
  "length (calculationHistory
      (run_ops (lookup_runtime sample_table)
         [Record (sample_result 1), Clear, Record (sample_result 2)] (constructor None))) \<le> 10 \<and>
   length (calculationHistory
      (run_ops (lookup_runtime sample_table)
         [Record (sample_result 1), Load, Clear, Load] (constructor (Some ''[R1]'')))) \<le> 10 \<and>
   length (calculationHistory
      (run_ops (lookup_runtime sample_table)
         [Load, Record (sample_result 1), Load]
         (startup (lookup_runtime sample_table)
            (Some ''[R0,R0,R0,R0,R0,R0,R0,R0,R0,R0,R0]'')))) \<le> 10 \<and>
   calculationHistory
     (run_ops (lookup_runtime sample_table)
        [Record (sample_result 1), Record (sample_result 2), Record (sample_result 3),
         Record (sample_result 4), Record (sample_result 5), Record (sample_result 6),
         Record (sample_result 7), Record (sample_result 8), Record (sample_result 9),
         Record (sample_result 10), Record (sample_result 11), Record (sample_result 12)]
        (constructor None)) =
     [sample_result 12, sample_result 11, sample_result 10, sample_result 9, sample_result 8,
      sample_result 7, sample_result 6, sample_result 5, sample_result 4, sample_result 3]"
proof -
  let ?rt = "lookup_runtime sample_table"
  have c: "codec_bounded ?rt"
    by (rule codec_bounded_sample)
  have b: "slot_bounded ?rt (constructor (Some ''[R1]''))"
    by (simp add: slot_bounded_def constructor_def)
  have w: "\<not> setItem_throws ?rt (JSON_stringify ?rt [])"
    by simp
  have e: "calculationHistory (constructor None) = []"
    "calculationHistory (constructor (Some ''[R1]'')) = []"
    by (simp_all add: constructor_def)
  have n: "Load \<notin> set [Record (sample_result 1), Clear, Record (sample_result 2)]"
    by simp
  from history_capacity
         [of "[Record (sample_result 1), Clear, Record (sample_result 2)]" "constructor None" ?rt]
       n e(1)
  have 1: "length (calculationHistory
      (run_ops ?rt [Record (sample_result 1), Clear, Record (sample_result 2)]
         (constructor None))) \<le> 10"
    by simp
  from history_capacity
         [of _ "constructor (Some ''[R1]'')" ?rt "[Record (sample_result 1), Load, Clear, Load]"]
       c b e(2)
  have 2: "length (calculationHistory
      (run_ops ?rt [Record (sample_result 1), Load, Clear, Load]
         (constructor (Some ''[R1]'')))) \<le> 10"
    by simp
  from history_capacity
         [of _ _ ?rt _ "Some ''[R0,R0,R0,R0,R0,R0,R0,R0,R0,R0,R0]''"
             "[Load, Record (sample_result 1), Load]"]
       c w
  have 3: "length (calculationHistory
      (run_ops ?rt [Load, Record (sample_result 1), Load]
         (startup ?rt (Some ''[R0,R0,R0,R0,R0,R0,R0,R0,R0,R0,R0]'')))) \<le> 10"
    by blast
  from history_capacity [of _ "constructor None" ?rt] e(1)
  have 4: "calculationHistory
     (run_ops ?rt
        [Record (sample_result 1), Record (sample_result 2), Record (sample_result 3),
         Record (sample_result 4), Record (sample_result 5), Record (sample_result 6),
         Record (sample_result 7), Record (sample_result 8), Record (sample_result 9),
         Record (sample_result 10), Record (sample_result 11), Record (sample_result 12)]
        (constructor None)) =
     [sample_result 12, sample_result 11, sample_result 10, sample_result 9, sample_result 8,
      sample_result 7, sample_result 6, sample_result 5, sample_result 4, sample_result 3]"
    by blast
  from 1 2 3 4 show ?thesis by blast
qed

subsection \<open>Persistence\<close>

text \<open>
  C6 says that loading, after records and clears with a working persistence layer,
  returns the history that was in memory at the last mutation. The component loads
  at one place only, the start-up, and there the effect has already written the
  serialised empty history over the slot. The first session leaves R2, R1 in memory
  and their serialisation in the slot, which parses back to R2, R1; the start-up of
  the next session over that slot ends with the empty history and the slot
  \<open>[]\<close>. Loading before the first run of the effect would have restored R2, R1.
\<close>

theorem reload_discards_history:
  "calculationHistory first_session = [sample_result 2, sample_result 1] \<and>
   storage first_session = Some ''[R2,R1]'' \<and>
   JSON_parse (lookup_runtime sample_table) ''[R2,R1]'' = Some [sample_result 2, sample_result 1] \<and>
   calculationHistory (startup (lookup_runtime sample_table) (storage first_session)) = [] \<and>
   storage (startup (lookup_runtime sample_table) (storage first_session)) = Some ''[]'' \<and>
   calculationHistory
     (loadHistoryFromStorage (lookup_runtime sample_table) (constructor (storage first_session))) =
     [sample_result 2, sample_result 1]"
  by (simp add: first_session_state startup_def loadHistoryFromStorage_def
        set_calculationHistory_def history_effect_def Let_def constructor_def)

text \<open>
  C7. Loading in a new component yields the empty history when the slot is absent,
  and when the slot is present but fails to parse; a text that is not empty and
  fails to parse resets the history to empty from any state. The function is total:
  the failure is caught and reaches no caller.
\<close>

theorem load_absent_or_malformed:
  "calculationHistory (loadHistoryFromStorage rt (constructor None)) = [] \<and>
   (JSON_parse rt stored = None \<longrightarrow>
      calculationHistory (loadHistoryFromStorage rt (constructor (Some stored))) = []) \<and>
   (storage s = Some stored \<and> stored \<noteq> [] \<and> JSON_parse rt stored = None \<longrightarrow>
      calculationHistory (loadHistoryFromStorage rt s) = [])"
  by (simp add: loadHistoryFromStorage_def constructor_def)

theorem load_absent_or_malformed_witness:
  "calculationHistory
     (loadHistoryFromStorage (table_runtime []) (constructor (Some ''{not json''))) = [] \<and>
   calculationHistory
     (loadHistoryFromStorage (table_runtime [])
        ((constructor (Some ''{not json''))\<lparr> calculationHistory := [sample_result 1] \<rparr>)) = []"
proof -
  have p: "JSON_parse (table_runtime []) ''{not json'' = None"
    by (simp add: table_runtime_def)
  have s: "storage ((constructor (Some ''{not json''))\<lparr> calculationHistory := [sample_result 1] \<rparr>) =
      Some ''{not json''"
    by (simp add: constructor_def)
  from load_absent_or_malformed
         [of "table_runtime []" "''{not json''"
             "(constructor (Some ''{not json''))\<lparr> calculationHistory := [sample_result 1] \<rparr>"] p s
  show ?thesis by simp
qed

end
